theory Spec2Isabelle
  imports Main "HOL-Library.Char_ord" "HOL-Library.List_Lexorder"
begin

section \<open>Callout inserter: a shallow embedding of \<open>src/main.ts\<close>\<close>

text \<open>
  JavaScript strings are modelled as \<^typ>\<open>string\<close>, one \<^typ>\<open>char\<close> per code unit
  (the ASCII range of the callout names the plugin handles). The order on strings is the
  lexicographic order on code units (\<open>HOL-Library.List_Lexorder\<close> over
  \<open>HOL-Library.Char_ord\<close>), which is what \<open>Array.prototype.sort\<close> without a comparator
  and the operator \<open><\<close> on strings use.
\<close>

subsection \<open>Plugin state\<close>

record CalloutInserterSettings =
  defaultCalloutTypes :: "string list"

definition DEFAULT_SETTINGS :: CalloutInserterSettings where
  "DEFAULT_SETTINGS = \<lparr>defaultCalloutTypes =
     [''note'', ''abstract'', ''info'', ''todo'', ''tip'', ''success'', ''question'',
      ''warning'', ''failure'', ''danger'', ''bug'', ''example'', ''quote'', ''summary'']\<rparr>"

text \<open>
  Modelled from the spec: the style-rule source \<open>readText(path)\<close> (in the code
  \<open>this.app.vault.adapter.read\<close>) is a capability of the host; it either yields the text of
  the file or fails with \<open>NotFound\<close> or \<open>IOError\<close>. The promise it returns is represented by
  the value it settles with.
\<close>

datatype read_error = NotFound | IOError

type_synonym adapter = "string \<Rightarrow> read_error + string"

datatype console_entry =
    FoundCalloutTypes "string list"
  | CouldNotRead read_error

record CalloutInserterPlugin =
  settings :: CalloutInserterSettings
  cssCalloutTypes :: "string list"
  configDir :: string
  console :: "console_entry list"

subsection \<open>\<open>Set\<close> of strings, in insertion order\<close>

text \<open>
  A JavaScript \<open>Set\<close> keeps its elements in the order of their first insertion;
  \<open>Array.from\<close> reads them in that order. The set is the list of its elements.
\<close>

definition Set_add :: "string list \<Rightarrow> string \<Rightarrow> string list" where
  "Set_add s x = (if x \<in> set s then s else s @ [x])"

definition new_Set :: "string list \<Rightarrow> string list" where
  "new_Set xs = foldl Set_add [] xs"

subsection \<open>\<open>parseCalloutTypesFromCSS\<close>\<close>

text \<open>
  The regular expression \<open>/\[data-callout=["']([^"']+)["']\]/g\<close>: the literal
  \<open>[data-callout=\<close>, a quote, a non-empty maximal run of characters that are not quotes
  (the group), a quote and \<open>]\<close>. The run is greedy, and no shorter run can match, since
  the character after a shorter run is not a quote. \<open>matchAt\<close> matches at the head of the
  text and returns the group and the text after the match.
\<close>

definition isQuote :: "char \<Rightarrow> bool" where
  "isQuote c = (c = CHR 0x22 \<or> c = CHR 0x27)"

fun stripPrefix :: "string \<Rightarrow> string \<Rightarrow> string option" where
  "stripPrefix [] s = Some s"
| "stripPrefix (p # ps) [] = None"
| "stripPrefix (p # ps) (c # cs) = (if p = c then stripPrefix ps cs else None)"

definition matchAt :: "string \<Rightarrow> (string \<times> string) option" where
  "matchAt s =
     (case stripPrefix ''[data-callout='' s of
        None \<Rightarrow> None
      | Some r \<Rightarrow>
          (case r of
             [] \<Rightarrow> None
           | q # r' \<Rightarrow>
               if \<not> isQuote q then None
               else
                 let name = takeWhile (\<lambda>c. \<not> isQuote c) r';
                     r'' = dropWhile (\<lambda>c. \<not> isQuote c) r'
                 in if name = [] then None
                    else (case r'' of
                            q2 # b # rest \<Rightarrow> if b = CHR '']'' then Some (name, rest) else None
                          | _ \<Rightarrow> None)))"

text \<open>
  \<open>content.matchAll(regex)\<close>: the matches from left to right, each search starting where
  the previous match ended; here the list of their first groups.
\<close>

function matchAll :: "string \<Rightarrow> string list" where
  "matchAll [] = []"
| "matchAll (c # cs) =
     (case matchAt (c # cs) of
        None \<Rightarrow> matchAll cs
      | Some (g, rest) \<Rightarrow> g # matchAll rest)"
  by pat_completeness auto
termination
proof (relation "measure length")
  show "wf (measure length)" by simp
next
  fix c :: char and cs :: string
  show "(cs, c # cs) \<in> measure length" by simp
next
  fix c :: char and cs x2 g rest
  assume m: "matchAt (c # cs) = Some x2" and x2: "(g, rest) = x2"
  have strip: "\<And>p s r. stripPrefix p s = Some r \<Longrightarrow> length r \<le> length s"
  proof -
    fix p s r show "stripPrefix p s = Some r \<Longrightarrow> length r \<le> length s"
      by (induction p s rule: stripPrefix.induct) (auto split: if_splits)
  qed
  have dw: "\<And>q b t (u :: string). dropWhile (\<lambda>c. \<not> isQuote c) u = q # b # t \<Longrightarrow> length t < length u"
  proof -
    fix q b t and u :: string
    assume "dropWhile (\<lambda>c. \<not> isQuote c) u = q # b # t"
    then have "length (q # b # t) \<le> length u"
      by (metis length_dropWhile_le)
    then show "length t < length u" by simp
  qed
  from m x2 have "length rest < length (c # cs)"
    unfolding matchAt_def
    by (auto simp: Let_def split: option.splits list.splits if_splits dest!: strip dw)
  then show "(rest, c # cs) \<in> measure length" by simp
qed

definition cssPath :: "CalloutInserterPlugin \<Rightarrow> string" where
  "cssPath p = configDir p @ ''/snippets/callouts.css''"

text \<open>
  The state of the plugin once the promise chain \<open>read(cssPath).then(...).catch(...)\<close> has
  settled. The method itself returns to its caller before that, with no value.
\<close>

definition parseCalloutTypesFromCSS :: "adapter \<Rightarrow> CalloutInserterPlugin \<Rightarrow> CalloutInserterPlugin" where
  "parseCalloutTypesFromCSS read p =
     (case read (cssPath p) of
        Inr content \<Rightarrow>
          (let types = new_Set (matchAll content)
           in p\<lparr>cssCalloutTypes := types,
                console := console p @ [FoundCalloutTypes types]\<rparr>)
      | Inl err \<Rightarrow>
          p\<lparr>console := console p @ [CouldNotRead err],
            cssCalloutTypes := []\<rparr>)"

subsection \<open>\<open>getAvailableCalloutTypes\<close>\<close>

definition getAvailableCalloutTypes :: "CalloutInserterPlugin \<Rightarrow> string list" where
  "getAvailableCalloutTypes p =
     (let combined = cssCalloutTypes p @ defaultCalloutTypes (settings p)
      in sort (new_Set combined))"

subsection \<open>The editor\<close>

record EditorPosition =
  line :: nat
  ch :: nat

text \<open>
  Modelled from the spec: the document-editing capability (\<open>getCursor\<close>,
  \<open>insertTextAt(position, text)\<close>, \<open>setCursor(position)\<close>, \<open>focus()\<close>; in the code the
  host's \<open>Editor\<close>). The document is its text, lines separated by the newline character;
  lines and columns count from 0. \<open>posToOffset\<close> is the offset of a position in the text:
  a column beyond the end of its line is the end of the line, a line beyond the last is
  the end of the text.
\<close>

record Editor =
  doc :: string
  cursor :: EditorPosition
  hasFocus :: bool

fun posToOffset :: "string \<Rightarrow> nat \<Rightarrow> nat \<Rightarrow> nat" where
  "posToOffset [] l c = 0"
| "posToOffset (x # xs) 0 c =
     (if c = 0 \<or> x = CHR 0x0A then 0 else Suc (posToOffset xs 0 (c - 1)))"
| "posToOffset (x # xs) (Suc l) c =
     Suc (posToOffset xs (if x = CHR 0x0A then l else Suc l) c)"

definition getCursor :: "Editor \<Rightarrow> EditorPosition" where
  "getCursor e = cursor e"

text \<open>
  \<open>replaceRange(text, from)\<close> with no \<open>to\<close> inserts the text at \<open>from\<close>. Where the editor
  leaves its cursor after the change is not modelled: \<open>insertCallout\<close> sets it next.
\<close>

definition replaceRange :: "string \<Rightarrow> EditorPosition \<Rightarrow> Editor \<Rightarrow> Editor" where
  "replaceRange text from e =
     (let off = posToOffset (doc e) (line from) (ch from)
      in e\<lparr>doc := take off (doc e) @ text @ drop off (doc e)\<rparr>)"

definition setCursor :: "EditorPosition \<Rightarrow> Editor \<Rightarrow> Editor" where
  "setCursor pos e = e\<lparr>cursor := pos\<rparr>"

definition focus :: "Editor \<Rightarrow> Editor" where
  "focus e = e\<lparr>hasFocus := True\<rparr>"

subsection \<open>The modal and the capabilities it holds\<close>

text \<open>
  Modelled from the spec: the rendering capability \<open>render(sourceText, targetSurface)\<close>
  (in the code \<open>MarkdownRenderer.render\<close>) is asynchronous. A call is in flight until it
  settles; when it settles it mounts the rendered content of its source text into the
  surface, after what the surface holds then; when it rejects it mounts nothing. The
  content mounted for a source text is \<open>Rendered\<close> of that text. Each call is numbered
  (its ticket), and the resources of the call are bound to the \<open>Component\<close> it was given,
  which releases them when it is unloaded.
\<close>

datatype node = Rendered string

record Component =
  bound :: "nat list"
  released :: "nat list"

definition new_Component :: Component where
  "new_Component = \<lparr>bound = [], released = []\<rparr>"

definition addChild :: "nat \<Rightarrow> Component \<Rightarrow> Component" where
  "addChild k c = c\<lparr>bound := bound c @ [k]\<rparr>"

definition unload :: "Component \<Rightarrow> Component" where
  "unload c = c\<lparr>released := released c @ bound c, bound := []\<rparr>"

text \<open>
  Modelled from the spec: the structural observation (in the code a \<open>MutationObserver\<close>)
  either observes its target or is disconnected; disconnecting twice is disconnecting once.
\<close>

record MutationObserver =
  observing :: bool

definition disconnect :: "MutationObserver \<Rightarrow> MutationObserver" where
  "disconnect ob = ob\<lparr>observing := False\<rparr>"

text \<open>The fields of the class, as the source declares them.\<close>

record CalloutSuggestModal =
  editor :: Editor
  calloutTypes :: "string list"
  previewEl :: "node list"
  component :: Component
  currentPreviewType :: "string option"
  observer :: "MutationObserver option"

text \<open>
  The session: the modal, and what the host holds around it, namely the plugin object of
  the \<open>app\<close> the modal was constructed with, the render calls in flight (ticket and
  source text, oldest first), the number of render calls made so far, and the tickets of
  the \<open>updatePreview\<close> promises that were rejected. No caller of \<open>updatePreview\<close> awaits
  or catches its promise, so a rejection reaches no handler of the modal: it is reported
  by the host as an unhandled rejection.
\<close>

record session =
  plugin :: CalloutInserterPlugin
  modal :: CalloutSuggestModal
  inFlight :: "(nat \<times> string) list"
  renderCalls :: nat
  unhandledRejections :: "nat list"

definition new_CalloutSuggestModal :: "CalloutInserterPlugin \<Rightarrow> Editor \<Rightarrow> string list \<Rightarrow> session" where
  "new_CalloutSuggestModal app ed types =
     \<lparr>plugin = app,
      modal = \<lparr>editor = ed, calloutTypes = types, previewEl = [],
                component = new_Component, currentPreviewType = None, observer = None\<rparr>,
      inFlight = [], renderCalls = 0, unhandledRejections = []\<rparr>"

definition editorCallback :: "CalloutInserterPlugin \<Rightarrow> Editor \<Rightarrow> session" where
  "editorCallback p ed = new_CalloutSuggestModal p ed (getAvailableCalloutTypes p)"

definition onOpen :: "session \<Rightarrow> session" where
  "onOpen s = s\<lparr>modal := (modal s)\<lparr>observer := Some \<lparr>observing = True\<rparr>\<rparr>\<rparr>"

definition getItems :: "session \<Rightarrow> string list" where
  "getItems s = calloutTypes (modal s)"

subsection \<open>\<open>insertCallout\<close>\<close>

definition calloutText :: "string \<Rightarrow> string" where
  "calloutText type = ''> [!'' @ type @ '']'' @ [CHR 0x0A] @ ''> ''"

definition insertCallout :: "session \<Rightarrow> string \<Rightarrow> session" where
  "insertCallout s type =
     (let cursor = getCursor (editor (modal s));
          newCursor = \<lparr>line = line cursor + 1, ch = 2\<rparr>
      in s\<lparr>modal := (modal s)\<lparr>editor :=
           focus (setCursor newCursor (replaceRange (calloutText type) cursor (editor (modal s))))\<rparr>\<rparr>)"

definition onChooseItem :: "session \<Rightarrow> string \<Rightarrow> session" where
  "onChooseItem s item = insertCallout s item"

subsection \<open>\<open>updatePreview\<close> and the render calls\<close>

text \<open>
  \<open>toUpperCase\<close> on the letters \<open>a\<close> to \<open>z\<close>; JavaScript maps letters outside ASCII by
  the Unicode tables, which the model leaves as they are.
\<close>

definition toUpperCase :: "string \<Rightarrow> string" where
  "toUpperCase t =
     map (\<lambda>c. if CHR ''a'' \<le> c \<and> c \<le> CHR ''z'' then char_of (of_char c - (32::nat)) else c) t"

definition calloutMarkdown :: "string \<Rightarrow> string" where
  "calloutMarkdown type =
     ''> [!'' @ type @ ''] '' @ toUpperCase (take 1 type) @ drop 1 type @ [CHR 0x0A]
       @ ''> This is a preview of the '' @ type @ '' callout.''"

definition render :: "string \<Rightarrow> session \<Rightarrow> session" where
  "render markdown s =
     s\<lparr>modal := (modal s)\<lparr>component := addChild (renderCalls s) (component (modal s))\<rparr>,
       inFlight := inFlight s @ [(renderCalls s, markdown)],
       renderCalls := renderCalls s + 1\<rparr>"

text \<open>
  The body of \<open>updatePreview\<close> up to its \<open>await\<close>. Nothing follows the \<open>await\<close>: when the
  render settles the promise of \<open>updatePreview\<close> resolves, when it rejects so does the
  promise.
\<close>

definition updatePreview :: "session \<Rightarrow> string \<Rightarrow> session" where
  "updatePreview s type =
     (if currentPreviewType (modal s) = Some type then s
      else render (calloutMarkdown type)
             (s\<lparr>modal := (modal s)\<lparr>currentPreviewType := Some type, previewEl := []\<rparr>\<rparr>))"

definition renderSettles :: "session \<Rightarrow> nat \<Rightarrow> session" where
  "renderSettles s k =
     (case map_of (inFlight s) k of
        None \<Rightarrow> s
      | Some markdown \<Rightarrow>
          s\<lparr>modal := (modal s)\<lparr>previewEl := previewEl (modal s) @ [Rendered markdown]\<rparr>,
            inFlight := filter (\<lambda>r. fst r \<noteq> k) (inFlight s)\<rparr>)"

definition renderRejects :: "session \<Rightarrow> nat \<Rightarrow> session" where
  "renderRejects s k =
     (case map_of (inFlight s) k of
        None \<Rightarrow> s
      | Some markdown \<Rightarrow>
          s\<lparr>inFlight := filter (\<lambda>r. fst r \<noteq> k) (inFlight s),
            unhandledRejections := unhandledRejections s @ [k]\<rparr>)"

subsection \<open>The rows of the list\<close>

text \<open>
  Modelled from the spec: the list widget hands each visible row to \<open>renderSuggestion\<close>
  with the row's item and its element, and marks the selected row with the class
  \<open>is-selected\<close>. Of an element the model keeps the classes, the \<open>calloutType\<close> entry of
  its dataset, the texts of the \<open>div\<close> children created in it, and the items its
  \<open>mouseenter\<close> listeners were registered for.
\<close>

record HTMLElement =
  classList :: "string list"
  dataset_calloutType :: "string option"
  divs :: "string list"
  mouseenterListeners :: "string list"

definition renderSuggestion :: "session \<Rightarrow> string \<Rightarrow> HTMLElement \<Rightarrow> session \<times> HTMLElement" where
  "renderSuggestion s item el =
     (let el1 = el\<lparr>divs := divs el @ [item]\<rparr>;
          el2 = el1\<lparr>dataset_calloutType := Some item\<rparr>;
          el3 = el2\<lparr>mouseenterListeners := mouseenterListeners el2 @ [item]\<rparr>
      in (if ''is-selected'' \<in> set (classList el3) then updatePreview s item else s, el3))"

definition mouseenter :: "session \<Rightarrow> HTMLElement \<Rightarrow> session" where
  "mouseenter s el = foldl updatePreview s (mouseenterListeners el)"

record MutationRecord =
  mutationType :: string
  attributeName :: "string option"
  target :: HTMLElement

definition observerCallback :: "session \<Rightarrow> MutationRecord list \<Rightarrow> session" where
  "observerCallback s mutations =
     foldl (\<lambda>s mutation.
        if mutationType mutation = ''attributes'' \<and> attributeName mutation = Some ''class''
        then (if ''is-selected'' \<in> set (classList (target mutation))
              then (case dataset_calloutType (target mutation) of
                      None \<Rightarrow> s
                    | Some type \<Rightarrow> if type \<noteq> [] then updatePreview s type else s)
              else s)
        else s) s mutations"

text \<open>
  Modelled from the spec: when the list is populated the widget materialises the rows in
  order, the first of them already marked selected.
\<close>

definition rowElement :: "bool \<Rightarrow> HTMLElement" where
  "rowElement selected =
     \<lparr>classList = (if selected then [''suggestion-item'', ''is-selected''] else [''suggestion-item'']),
      dataset_calloutType = None, divs = [], mouseenterListeners = []\<rparr>"

fun materialise :: "session \<Rightarrow> bool \<Rightarrow> string list \<Rightarrow> session \<times> HTMLElement list" where
  "materialise s first [] = (s, [])"
| "materialise s first (item # items) =
     (let (s1, el) = renderSuggestion s item (rowElement first);
          (s2, els) = materialise s1 False items
      in (s2, el # els))"

definition populate :: "session \<Rightarrow> session \<times> HTMLElement list" where
  "populate s = materialise s True (getItems s)"

subsection \<open>\<open>onClose\<close>\<close>

text \<open>
  \<open>super.onClose()\<close> is the host's and touches no field of the model. The test
  \<open>if (this.observer)\<close> is the case distinction on the observer: the field is undefined
  until \<open>onOpen\<close> has run.
\<close>

definition onClose :: "session \<Rightarrow> session" where
  "onClose s =
     (let m = (modal s)\<lparr>component := unload (component (modal s))\<rparr>
      in s\<lparr>modal := (case observer m of
                        None \<Rightarrow> m
                      | Some ob \<Rightarrow> m\<lparr>observer := Some (disconnect ob)\<rparr>)\<rparr>)"

subsection \<open>Traces of a session\<close>

datatype event =
    ShowPreview string
  | RenderSettles nat
  | RenderRejects nat

fun step :: "session \<Rightarrow> event \<Rightarrow> session" where
  "step s (ShowPreview type) = updatePreview s type"
| "step s (RenderSettles k) = renderSettles s k"
| "step s (RenderRejects k) = renderRejects s k"

definition run :: "session \<Rightarrow> event list \<Rightarrow> session" where
  "run s es = foldl step s es"

text \<open>
  The categories a trace asks a preview for, in order, and the category the session
  currently previews, as a list of at most one element.
\<close>

fun requested :: "event list \<Rightarrow> string list" where
  "requested [] = []"
| "requested (ShowPreview type # es) = type # requested es"
| "requested (RenderSettles k # es) = requested es"
| "requested (RenderRejects k # es) = requested es"

definition previewed :: "session \<Rightarrow> string list" where
  "previewed s = (case currentPreviewType (modal s) of None \<Rightarrow> [] | Some type \<Rightarrow> [type])"

text \<open>
  The tickets of the renders in flight are those of calls already made. Every session
  reached from a new modal is of this kind (\<open>ticketsFresh_run\<close> below).
\<close>

definition ticketsFresh :: "session \<Rightarrow> bool" where
  "ticketsFresh s = (\<forall>r \<in> set (inFlight s). fst r < renderCalls s)"

subsection \<open>Concrete inputs\<close>

text \<open>
  A plugin with the default settings, and an editor on a document of five lines with the
  cursor on line 3, column 2; the theorems below are instantiated at them.
\<close>

definition plugin0 :: CalloutInserterPlugin where
  "plugin0 = \<lparr>settings = DEFAULT_SETTINGS, cssCalloutTypes = [''custom''],
              configDir = ''.obsidian'', console = []\<rparr>"

definition editor0 :: Editor where
  "editor0 = \<lparr>doc = ''l0'' @ [CHR 0x0A] @ ''l1'' @ [CHR 0x0A] @ ''l2'' @ [CHR 0x0A]
                     @ ''line3'' @ [CHR 0x0A] @ ''l4'',
              cursor = \<lparr>line = 3, ch = 2\<rparr>, hasFocus = False\<rparr>"

section \<open>Properties\<close>

subsection \<open>The merge of the scanned and the configured names\<close>

lemma set_foldl_Set_add: "set (foldl Set_add acc xs) = set acc \<union> set xs"
  by (induction xs arbitrary: acc) (auto simp: Set_add_def)

lemma distinct_foldl_Set_add: "distinct acc \<Longrightarrow> distinct (foldl Set_add acc xs)"
  by (induction xs arbitrary: acc) (auto simp: Set_add_def)

lemma set_new_Set: "set (new_Set xs) = set xs"
  by (simp add: new_Set_def set_foldl_Set_add)

lemma distinct_new_Set: "distinct (new_Set xs)"
  by (simp add: new_Set_def distinct_foldl_Set_add)

lemma sort_new_Set: "sort (new_Set xs) = sorted_list_of_set (set xs)"
proof -
  have "sort (new_Set xs) = sort (remdups xs)"
    by (rule sorted_distinct_set_unique) (simp_all add: set_new_Set distinct_new_Set)
  then show ?thesis
    by (simp add: sorted_list_of_set_sort_remdups)
qed

text \<open>
  C5. \<open>getAvailableCalloutTypes\<close> returns the union of the scanned names and the configured
  names, without duplicates, sorted ascending in the lexicographic order on code units.
  The result is the sorted list of that union, so it depends on nothing but the set of
  names the two inputs hold: equal inputs, and inputs that differ only in order or in
  repetitions, give the same sequence. For the scanned names \<open>custom\<close> and the configured
  names \<open>note\<close>, \<open>custom\<close>, \<open>tip\<close> the result is \<open>custom\<close>, \<open>note\<close>, \<open>tip\<close>.
\<close>

theorem merge_union_dedup_sorted:
  "set (getAvailableCalloutTypes p) = set (cssCalloutTypes p) \<union> set (defaultCalloutTypes (settings p))
   \<and> distinct (getAvailableCalloutTypes p)
   \<and> sorted (getAvailableCalloutTypes p)
   \<and> getAvailableCalloutTypes p =
       sorted_list_of_set (set (cssCalloutTypes p) \<union> set (defaultCalloutTypes (settings p)))
   \<and> getAvailableCalloutTypes
        (p\<lparr>cssCalloutTypes := [''custom''],
           settings := \<lparr>defaultCalloutTypes = [''note'', ''custom'', ''tip'']\<rparr>\<rparr>)
       = [''custom'', ''note'', ''tip'']"
proof -
  have ex: "sort (new_Set ([''custom''] @ [''note'', ''custom'', ''tip''])) = [''custom'', ''note'', ''tip'']"
    by (simp add: new_Set_def Set_add_def)
  show ?thesis
    unfolding getAvailableCalloutTypes_def Let_def
    using ex by (simp add: set_new_Set distinct_new_Set sort_new_Set)
qed

subsection \<open>The scan of a style source that cannot be read\<close>

text \<open>
  C7. When the read of the style source fails, with whatever error, the scan leaves the
  plugin with an empty list of scanned names and one more line on the console, and
  changes nothing else; the names on offer are then the configured ones. The failure is
  handled in the promise chain of \<open>parseCalloutTypesFromCSS\<close>: the method has no result
  and its caller sees no error.
\<close>

theorem scan_missing_source:
  assumes "read (cssPath p) = Inl err"
  shows "cssCalloutTypes (parseCalloutTypesFromCSS read p) = []
         \<and> console (parseCalloutTypesFromCSS read p) = console p @ [CouldNotRead err]
         \<and> settings (parseCalloutTypesFromCSS read p) = settings p
         \<and> configDir (parseCalloutTypesFromCSS read p) = configDir p
         \<and> getAvailableCalloutTypes (parseCalloutTypesFromCSS read p)
             = sort (new_Set (defaultCalloutTypes (settings p)))"
  using assms by (simp add: parseCalloutTypesFromCSS_def getAvailableCalloutTypes_def)

theorem scan_missing_source_witness:
  "(\<lambda>path. Inl NotFound :: read_error + string) (cssPath plugin0) = Inl NotFound
   \<and> cssCalloutTypes plugin0 = [''custom'']
   \<and> cssCalloutTypes (parseCalloutTypesFromCSS (\<lambda>path. Inl NotFound) plugin0) = []
   \<and> console (parseCalloutTypesFromCSS (\<lambda>path. Inl NotFound) plugin0) = [CouldNotRead NotFound]"
  using scan_missing_source [of "\<lambda>path. Inl NotFound" plugin0 NotFound]
  by (simp add: plugin0_def)

subsection \<open>Insertion of the callout\<close>

lemma editor_insertCallout:
  "editor (modal (insertCallout s t)) =
     (let e = editor (modal s);
          off = posToOffset (doc e) (line (cursor e)) (ch (cursor e))
      in \<lparr>doc = take off (doc e) @ calloutText t @ drop off (doc e),
          cursor = \<lparr>line = line (cursor e) + 1, ch = 2\<rparr>,
          hasFocus = True\<rparr>)"
  by (simp add: insertCallout_def Let_def focus_def setCursor_def replaceRange_def getCursor_def)

lemma posToOffset_le: "posToOffset d l c \<le> length d"
  by (induction d l c rule: posToOffset.induct) auto

lemma posToOffset_0_0: "posToOffset r 0 0 = 0"
  by (cases r) auto

lemma posToOffset_line0_prefix:
  "CHR 0x0A \<notin> set v \<Longrightarrow> posToOffset (v @ r) 0 (length v) = length v"
  by (induction v) (auto simp: posToOffset_0_0)

lemma posToOffset_noline:
  "CHR 0x0A \<notin> set v \<Longrightarrow> length v \<le> c \<Longrightarrow> posToOffset v l c = length v"
proof (induction v arbitrary: l c)
  case Nil
  then show ?case by simp
next
  case (Cons x xs)
  then show ?case by (cases l) auto
qed

lemma posToOffset_skip_line:
  "CHR 0x0A \<notin> set w \<Longrightarrow>
   posToOffset (w @ CHR 0x0A # r) (Suc l) k = length w + 1 + posToOffset r l k"
  by (induction w) auto

lemma posToOffset_after_insert:
  assumes "CHR 0x0A \<notin> set w" and "CHR 0x0A \<notin> set v"
  shows "posToOffset (take (posToOffset d l c) d @ w @ CHR 0x0A # v @ drop (posToOffset d l c) d)
            (Suc l) (length v)
         = posToOffset d l c + length w + 1 + length v"
  using assms
proof (induction d l c rule: posToOffset.induct)
  case (1 l c)
  then show ?case
    using posToOffset_skip_line [of w v l "length v"] posToOffset_noline [of v "length v" l]
    by simp
next
  case (2 x xs c)
  show ?case
  proof (cases "c = 0 \<or> x = CHR 0x0A")
    case True
    then show ?thesis
      using 2 posToOffset_skip_line [of w "v @ x # xs" 0 "length v"]
        posToOffset_line0_prefix [of v "x # xs"]
      by auto
  next
    case False
    then show ?thesis using 2 by simp
  qed
next
  case (3 x xs l c)
  then show ?case by (cases "x = CHR 0x0A") simp_all
qed

text \<open>
  C4. For every category and every cursor position, \<open>insertCallout\<close> leaves the editor
  with the text \<open>> [!\<close>, the category, \<open>]\<close>, a newline and \<open>> \<close> inserted at the
  cursor, the cursor on the next line at column 2, and the focus on the editor. For the
  category \<open>warning\<close> and the cursor on line 3 the inserted text is \<open>> [!warning]\<close>, a
  newline and \<open>> \<close>, and the cursor ends on line 4, column 2.
\<close>

theorem insertCallout_snippet_and_cursor:
  "editor (modal (insertCallout s t)) =
     (let e = editor (modal s);
          off = posToOffset (doc e) (line (cursor e)) (ch (cursor e))
      in \<lparr>doc = take off (doc e) @ (''> [!'' @ t @ '']'' @ [CHR 0x0A] @ ''> '') @ drop off (doc e),
          cursor = \<lparr>line = line (cursor e) + 1, ch = 2\<rparr>,
          hasFocus = True\<rparr>)
   \<and> line (cursor editor0) = 3
   \<and> editor (modal (insertCallout (new_CalloutSuggestModal plugin0 editor0 types) ''warning''))
       = \<lparr>doc = ''l0'' @ [CHR 0x0A] @ ''l1'' @ [CHR 0x0A] @ ''l2'' @ [CHR 0x0A]
                 @ ''li'' @ (''> [!warning]'' @ [CHR 0x0A] @ ''> '') @ ''ne3'' @ [CHR 0x0A] @ ''l4'',
           cursor = \<lparr>line = 4, ch = 2\<rparr>, hasFocus = True\<rparr>"
  by (simp add: editor_insertCallout calloutText_def Let_def new_CalloutSuggestModal_def
      editor0_def eval_nat_numeral)

text \<open>
  When the category holds no newline, the new cursor is the position right after the
  inserted text, the start of what follows \<open>> \<close> on the continuation line.
\<close>

lemma cursor_after_snippet:
  assumes "CHR 0x0A \<notin> set t"
  shows "(let e = editor (modal s); e' = editor (modal (insertCallout s t))
          in posToOffset (doc e') (line (cursor e')) (ch (cursor e'))
             = posToOffset (doc e) (line (cursor e)) (ch (cursor e)) + length (calloutText t))"
proof -
  let ?e = "editor (modal s)"
  let ?off = "posToOffset (doc ?e) (line (cursor ?e)) (ch (cursor ?e))"
  let ?w = "''> [!'' @ t @ '']'' :: string"
  let ?v = "''> '' :: string"
  have w: "CHR 0x0A \<notin> set ?w" using assms by simp
  have v: "CHR 0x0A \<notin> set ?v" by simp
  have sn: "calloutText t = ?w @ CHR 0x0A # ?v" by (simp add: calloutText_def)
  have main: "posToOffset (take ?off (doc ?e) @ ?w @ CHR 0x0A # ?v @ drop ?off (doc ?e))
          (Suc (line (cursor ?e))) (length ?v)
        = ?off + length ?w + 1 + length ?v"
    using w v by (rule posToOffset_after_insert)
  have len: "length (calloutText t) = length ?w + 1 + length ?v" unfolding sn by simp
  have d: "doc (editor (modal (insertCallout s t)))
        = take ?off (doc ?e) @ ?w @ CHR 0x0A # ?v @ drop ?off (doc ?e)"
    by (simp add: editor_insertCallout Let_def sn)
  have l: "line (cursor (editor (modal (insertCallout s t)))) = Suc (line (cursor ?e))"
    by (simp add: editor_insertCallout Let_def)
  have c: "ch (cursor (editor (modal (insertCallout s t)))) = length ?v"
    by (simp add: editor_insertCallout Let_def)
  show ?thesis
    unfolding Let_def d l c main len by simp
qed

text \<open>
  C10. \<open>insertCallout\<close> changes the document by the insertion only: the text before the
  offset of the cursor and the text after it are what they were, the inserted text lies
  between them, and the document grows by the length of the inserted text. It changes
  neither the plugin (its settings and its scanned names), nor the names the modal offers,
  nor the state of the preview (the surface, the current category, the component, the
  observer, the renders in flight).
\<close>

theorem insertCallout_frame:
  "(let e = editor (modal s);
        off = posToOffset (doc e) (line (cursor e)) (ch (cursor e));
        d' = doc (editor (modal (insertCallout s t)))
    in take off d' = take off (doc e)
       \<and> take (length (calloutText t)) (drop off d') = calloutText t
       \<and> drop (off + length (calloutText t)) d' = drop off (doc e)
       \<and> length d' = length (doc e) + length (calloutText t))
   \<and> plugin (insertCallout s t) = plugin s
   \<and> calloutTypes (modal (insertCallout s t)) = calloutTypes (modal s)
   \<and> previewEl (modal (insertCallout s t)) = previewEl (modal s)
   \<and> currentPreviewType (modal (insertCallout s t)) = currentPreviewType (modal s)
   \<and> component (modal (insertCallout s t)) = component (modal s)
   \<and> observer (modal (insertCallout s t)) = observer (modal s)
   \<and> inFlight (insertCallout s t) = inFlight s
   \<and> renderCalls (insertCallout s t) = renderCalls s
   \<and> unhandledRejections (insertCallout s t) = unhandledRejections s"
proof -
  let ?e = "editor (modal s)"
  let ?off = "posToOffset (doc ?e) (line (cursor ?e)) (ch (cursor ?e))"
  have le: "?off \<le> length (doc ?e)" by (rule posToOffset_le)
  have d: "doc (editor (modal (insertCallout s t)))
           = take ?off (doc ?e) @ calloutText t @ drop ?off (doc ?e)"
    by (simp add: editor_insertCallout Let_def)
  have len: "length (take ?off (doc ?e)) = ?off" using le by simp
  have 1: "take ?off (take ?off (doc ?e) @ calloutText t @ drop ?off (doc ?e)) = take ?off (doc ?e)"
    using len by simp
  have 2: "drop ?off (take ?off (doc ?e) @ calloutText t @ drop ?off (doc ?e))
           = calloutText t @ drop ?off (doc ?e)"
    using len by simp
  have 3: "drop (?off + length (calloutText t))
             (take ?off (doc ?e) @ calloutText t @ drop ?off (doc ?e)) = drop ?off (doc ?e)"
    using len by (simp add: drop_append)
  have 4: "length (take ?off (doc ?e) @ calloutText t @ drop ?off (doc ?e))
           = length (doc ?e) + length (calloutText t)"
    using le by simp
  have frame: "plugin (insertCallout s t) = plugin s
   \<and> calloutTypes (modal (insertCallout s t)) = calloutTypes (modal s)
   \<and> previewEl (modal (insertCallout s t)) = previewEl (modal s)
   \<and> currentPreviewType (modal (insertCallout s t)) = currentPreviewType (modal s)
   \<and> component (modal (insertCallout s t)) = component (modal s)
   \<and> observer (modal (insertCallout s t)) = observer (modal s)
   \<and> inFlight (insertCallout s t) = inFlight s
   \<and> renderCalls (insertCallout s t) = renderCalls s
   \<and> unhandledRejections (insertCallout s t) = unhandledRejections s"
    by (simp add: insertCallout_def Let_def)
  show ?thesis
    unfolding Let_def d using 1 2 3 4 frame by simp
qed

subsection \<open>The preview\<close>

lemma updatePreview_same:
  "currentPreviewType (modal s) = Some t \<Longrightarrow> updatePreview s t = s"
  by (simp add: updatePreview_def)

lemma updatePreview_other:
  "currentPreviewType (modal s) \<noteq> Some t \<Longrightarrow>
   updatePreview s t =
     s\<lparr>modal := (modal s)\<lparr>currentPreviewType := Some t, previewEl := [],
                           component := addChild (renderCalls s) (component (modal s))\<rparr>,
       inFlight := inFlight s @ [(renderCalls s, calloutMarkdown t)],
       renderCalls := renderCalls s + 1\<rparr>"
  by (simp add: updatePreview_def render_def)

lemma currentPreviewType_updatePreview:
  "currentPreviewType (modal (updatePreview s t)) = Some t"
  by (simp add: updatePreview_def render_def)

lemma renderSettles_keeps:
  "currentPreviewType (modal (renderSettles s k)) = currentPreviewType (modal s)"
  "renderCalls (renderSettles s k) = renderCalls s"
  by (simp_all add: renderSettles_def split: option.splits)

lemma renderRejects_keeps:
  "modal (renderRejects s k) = modal s"
  "renderCalls (renderRejects s k) = renderCalls s"
  by (simp_all add: renderRejects_def split: option.splits)

lemma run_Cons: "run s (e # es) = run (step s e) es"
  by (simp add: run_def)

lemma run_Nil: "run s [] = s"
  by (simp add: run_def)

lemma length_remdups_adj_previewed:
  "currentPreviewType (modal s) \<noteq> Some t \<Longrightarrow>
   length (remdups_adj (previewed s @ t # ts)) = length (previewed s) + length (remdups_adj (t # ts))"
  by (auto simp: previewed_def split: option.splits)

lemma render_count:
  "renderCalls (run s es) + length (previewed s)
     = renderCalls s + length (remdups_adj (previewed s @ requested es))"
proof (induction es arbitrary: s)
  case Nil
  show ?case by (simp add: run_Nil previewed_def split: option.splits)
next
  case (Cons e es)
  show ?case
  proof (cases e)
    case (ShowPreview t)
    show ?thesis
    proof (cases "currentPreviewType (modal s) = Some t")
      case True
      then have "step s e = s" using ShowPreview by (simp add: updatePreview_same)
      moreover have "remdups_adj (previewed s @ t # requested es)
                     = remdups_adj (previewed s @ requested es)"
        using True by (simp add: previewed_def)
      ultimately show ?thesis using Cons [of s] ShowPreview by (simp add: run_Cons)
    next
      case False
      let ?s1 = "updatePreview s t"
      have p1: "previewed ?s1 = [t]"
        by (simp add: previewed_def currentPreviewType_updatePreview)
      have r1: "renderCalls ?s1 = renderCalls s + 1"
        using False by (simp add: updatePreview_other)
      have "renderCalls (run ?s1 es) + 1 = renderCalls ?s1 + length (remdups_adj (t # requested es))"
        using Cons [of ?s1] p1 by simp
      then show ?thesis
        using ShowPreview r1 length_remdups_adj_previewed [OF False, of "requested es"]
        by (simp add: run_Cons)
    qed
  next
    case (RenderSettles k)
    have "previewed (renderSettles s k) = previewed s"
      by (simp add: previewed_def renderSettles_keeps)
    then show ?thesis
      using Cons [of "renderSettles s k"] RenderSettles
      by (simp add: run_Cons renderSettles_keeps)
  next
    case (RenderRejects k)
    have "previewed (renderRejects s k) = previewed s"
      by (simp add: previewed_def renderRejects_keeps)
    then show ?thesis
      using Cons [of "renderRejects s k"] RenderRejects
      by (simp add: run_Cons renderRejects_keeps)
  qed
qed

lemma run_replicate_same:
  "currentPreviewType (modal s) = Some c \<Longrightarrow> run s (replicate n (ShowPreview c)) = s"
  by (induction n) (simp_all add: run_Nil run_Cons updatePreview_same)

lemma run_replicate_le:
  "renderCalls (run s (replicate n (ShowPreview c))) \<le> renderCalls s + 1"
proof (cases n)
  case 0
  then show ?thesis by (simp add: run_Nil)
next
  case (Suc m)
  show ?thesis
  proof (cases "currentPreviewType (modal s) = Some c")
    case True
    then show ?thesis by (simp add: run_replicate_same)
  next
    case False
    have "run s (replicate n (ShowPreview c)) = run (updatePreview s c) (replicate m (ShowPreview c))"
      using Suc by (simp add: run_Cons)
    also have "\<dots> = updatePreview s c"
      by (rule run_replicate_same) (rule currentPreviewType_updatePreview)
    finally show ?thesis using False by (simp add: updatePreview_other)
  qed
qed

text \<open>
  C2. A call of \<open>updatePreview\<close> for the category the session already previews changes
  nothing: no render, no emptying of the surface. Over any trace of calls and of renders
  settling or failing, the number of render calls made is the number of runs of equal
  consecutive categories among the calls (a first run that repeats the category already
  previewed not counted), so each run costs at most one render; \<open>n\<close> calls for one
  category make at most one render call, and from a new modal the calls \<open>c\<close>, \<open>c\<close>, \<open>c\<close>
  make exactly one.
\<close>

theorem coalescing:
  "(currentPreviewType (modal s) = Some c \<longrightarrow> updatePreview s c = s)
   \<and> renderCalls (run s es) + length (previewed s)
       = renderCalls s + length (remdups_adj (previewed s @ requested es))
   \<and> renderCalls (run s (replicate n (ShowPreview c))) \<le> renderCalls s + 1
   \<and> renderCalls (run (new_CalloutSuggestModal app ed types)
                       [ShowPreview c, ShowPreview c, ShowPreview c]) = 1"
proof -
  have "renderCalls (run (new_CalloutSuggestModal app ed types)
                       [ShowPreview c, ShowPreview c, ShowPreview c]) = 1"
    by (simp add: run_def updatePreview_def render_def new_CalloutSuggestModal_def)
  then show ?thesis
    using render_count [of s es] run_replicate_le [of s n c]
    by (simp add: updatePreview_same)
qed

theorem coalescing_witness:
  "currentPreviewType (modal (updatePreview (new_CalloutSuggestModal plugin0 editor0 [''note'']) ''note''))
     = Some ''note''
   \<and> updatePreview (updatePreview (new_CalloutSuggestModal plugin0 editor0 [''note'']) ''note'') ''note''
       = updatePreview (new_CalloutSuggestModal plugin0 editor0 [''note'']) ''note''
   \<and> renderCalls (run (new_CalloutSuggestModal plugin0 editor0 [''note''])
        [ShowPreview ''note'', ShowPreview ''note'', ShowPreview ''note'']) = 1"
  using coalescing [of "updatePreview (new_CalloutSuggestModal plugin0 editor0 [''note'']) ''note''"
      "''note''" "[]" 0 plugin0 editor0 "[''note'']"]
  by (simp add: currentPreviewType_updatePreview)

text \<open>
  The two signals for one row coalesce as well: after the pointer has entered a row that
  \<open>renderSuggestion\<close> set up, the observer's callback for that row becoming selected
  changes nothing.
\<close>

lemma signals_coalesce:
  "(let el = snd (renderSuggestion s item (rowElement False));
        hovered = mouseenter s el
    in hovered = updatePreview s item
       \<and> observerCallback hovered
           [\<lparr>mutationType = ''attributes'', attributeName = Some ''class'',
             target = el\<lparr>classList := classList el @ [''is-selected'']\<rparr>\<rparr>] = hovered)"
  by (simp add: Let_def renderSuggestion_def rowElement_def mouseenter_def observerCallback_def
      currentPreviewType_updatePreview updatePreview_same)

text \<open>
  C9. \<open>updatePreview\<close> makes no test of membership: for every string that is not the
  category currently previewed, be it empty or absent from the names the modal offers,
  the call records the string as the current category, empties the surface and makes a
  render call for the sample text of that string. The function has no error result.
\<close>

theorem updatePreview_unchecked:
  assumes "currentPreviewType (modal s) \<noteq> Some t"
  shows "currentPreviewType (modal (updatePreview s t)) = Some t
         \<and> previewEl (modal (updatePreview s t)) = []
         \<and> inFlight (updatePreview s t) = inFlight s @ [(renderCalls s, calloutMarkdown t)]
         \<and> renderCalls (updatePreview s t) = renderCalls s + 1
         \<and> unhandledRejections (updatePreview s t) = unhandledRejections s
         \<and> calloutTypes (modal (updatePreview s t)) = calloutTypes (modal s)"
  using assms by (simp add: updatePreview_other)

theorem updatePreview_unchecked_witness:
  "currentPreviewType (modal (new_CalloutSuggestModal plugin0 editor0 [''note''])) \<noteq> Some ''''
   \<and> '''' \<notin> set (calloutTypes (modal (new_CalloutSuggestModal plugin0 editor0 [''note''])))
   \<and> currentPreviewType (modal (updatePreview (new_CalloutSuggestModal plugin0 editor0 [''note'']) ''''))
       = Some ''''
   \<and> inFlight (updatePreview (new_CalloutSuggestModal plugin0 editor0 [''note'']) '''')
       = [(0, ''> [!] '' @ [CHR 0x0A] @ ''> This is a preview of the  callout.'')]"
  using updatePreview_unchecked [of "new_CalloutSuggestModal plugin0 editor0 [''note'']" "''''"]
  by (simp add: new_CalloutSuggestModal_def calloutMarkdown_def toUpperCase_def)

subsection \<open>Two renders in flight\<close>

text \<open>
  C1, as stated, fails. From a new modal, a preview of \<open>note\<close> is requested and, while
  its render is in flight, a preview of \<open>tip\<close>. When both renders have settled, in either
  order, the surface holds the content rendered for \<open>note\<close> beside the content rendered
  for \<open>tip\<close>: the render of the superseded category mounts its output all the same.
\<close>

theorem stale_render_counterexample:
  "previewEl (modal (run (new_CalloutSuggestModal plugin0 editor0 [''note'', ''tip''])
       [ShowPreview ''note'', ShowPreview ''tip'', RenderSettles 0, RenderSettles 1]))
     = [Rendered (calloutMarkdown ''note''), Rendered (calloutMarkdown ''tip'')]
   \<and> inFlight (run (new_CalloutSuggestModal plugin0 editor0 [''note'', ''tip''])
       [ShowPreview ''note'', ShowPreview ''tip'', RenderSettles 0, RenderSettles 1]) = []
   \<and> previewEl (modal (run (new_CalloutSuggestModal plugin0 editor0 [''note'', ''tip''])
       [ShowPreview ''note'', ShowPreview ''tip'', RenderSettles 1, RenderSettles 0]))
     = [Rendered (calloutMarkdown ''tip''), Rendered (calloutMarkdown ''note'')]
   \<and> inFlight (run (new_CalloutSuggestModal plugin0 editor0 [''note'', ''tip''])
       [ShowPreview ''note'', ShowPreview ''tip'', RenderSettles 1, RenderSettles 0]) = []
   \<and> Rendered (calloutMarkdown ''note'') \<noteq> Rendered (calloutMarkdown ''tip'')"
  by (simp add: run_def updatePreview_def render_def renderSettles_def new_CalloutSuggestModal_def
      calloutMarkdown_def)

text \<open>
  C1, amended. Let a preview of \<open>a\<close> be requested in a session with no render in
  flight, and a preview of a different \<open>b\<close> while the render for \<open>a\<close> is in flight. The
  call for \<open>b\<close> proceeds at once: it records \<open>b\<close> as the current category and empties
  the surface, and both renders are in flight. Once both have settled the current category
  is \<open>b\<close>, and the surface holds the content rendered for \<open>b\<close> together with the content
  rendered for \<open>a\<close>, in the order in which the two renders settled.
\<close>

theorem superseded_render_still_mounts:
  assumes "a \<noteq> b" and "currentPreviewType (modal s) \<noteq> Some a" and "inFlight s = []"
  shows "(let k = renderCalls s; s2 = run s [ShowPreview a, ShowPreview b]
          in currentPreviewType (modal s2) = Some b
             \<and> previewEl (modal s2) = []
             \<and> inFlight s2 = [(k, calloutMarkdown a), (k + 1, calloutMarkdown b)]
             \<and> currentPreviewType (modal (run s2 [RenderSettles k, RenderSettles (k + 1)])) = Some b
             \<and> previewEl (modal (run s2 [RenderSettles k, RenderSettles (k + 1)]))
                 = [Rendered (calloutMarkdown a), Rendered (calloutMarkdown b)]
             \<and> inFlight (run s2 [RenderSettles k, RenderSettles (k + 1)]) = []
             \<and> currentPreviewType (modal (run s2 [RenderSettles (k + 1), RenderSettles k])) = Some b
             \<and> previewEl (modal (run s2 [RenderSettles (k + 1), RenderSettles k]))
                 = [Rendered (calloutMarkdown b), Rendered (calloutMarkdown a)]
             \<and> inFlight (run s2 [RenderSettles (k + 1), RenderSettles k]) = [])"
  using assms
  by (simp add: Let_def run_def updatePreview_def render_def renderSettles_def)

theorem superseded_render_still_mounts_witness:
  "''note'' \<noteq> ''tip''
   \<and> currentPreviewType (modal (new_CalloutSuggestModal plugin0 editor0 [''note'', ''tip'']))
       \<noteq> Some ''note''
   \<and> inFlight (new_CalloutSuggestModal plugin0 editor0 [''note'', ''tip'']) = []
   \<and> currentPreviewType (modal (run (run (new_CalloutSuggestModal plugin0 editor0 [''note'', ''tip''])
         [ShowPreview ''note'', ShowPreview ''tip'']) [RenderSettles 1, RenderSettles 0]))
       = Some ''tip''
   \<and> previewEl (modal (run (run (new_CalloutSuggestModal plugin0 editor0 [''note'', ''tip''])
         [ShowPreview ''note'', ShowPreview ''tip'']) [RenderSettles 1, RenderSettles 0]))
       = [Rendered (calloutMarkdown ''tip''), Rendered (calloutMarkdown ''note'')]"
  using superseded_render_still_mounts [of "''note''" "''tip''"
      "new_CalloutSuggestModal plugin0 editor0 [''note'', ''tip'']"]
  by (simp add: new_CalloutSuggestModal_def Let_def)

subsection \<open>A render that fails\<close>

lemma map_of_fresh:
  "\<forall>r \<in> set xs. fst r < (k::nat) \<Longrightarrow> map_of xs k = None"
  by (induction xs) auto

lemma filter_fresh:
  "\<forall>r \<in> set xs. fst r < (k::nat) \<Longrightarrow> filter (\<lambda>r. fst r \<noteq> k) xs = xs"
  by (induction xs) auto

lemma ticketsFresh_new: "ticketsFresh (new_CalloutSuggestModal app ed types)"
  by (simp add: ticketsFresh_def new_CalloutSuggestModal_def)

lemma ticketsFresh_step: "ticketsFresh s \<Longrightarrow> ticketsFresh (step s e)"
  by (cases e)
     (auto simp: ticketsFresh_def updatePreview_def render_def renderSettles_def renderRejects_def
           less_Suc_eq split: option.splits)

lemma ticketsFresh_run: "ticketsFresh s \<Longrightarrow> ticketsFresh (run s es)"
  by (induction es arbitrary: s) (simp_all add: run_Nil run_Cons ticketsFresh_step)

text \<open>
  C3, as stated, fails for a later call for the same category. From a new modal a
  preview of \<open>note\<close> is requested and its render fails; \<open>note\<close> is still the current
  category, so the next call for \<open>note\<close> returns at its first test: it changes nothing,
  no render call is made for it, and the surface stays empty.
\<close>

theorem failed_render_not_retried_counterexample:
  "run (new_CalloutSuggestModal plugin0 editor0 [''note'', ''tip''])
       [ShowPreview ''note'', RenderRejects 0, ShowPreview ''note'']
     = run (new_CalloutSuggestModal plugin0 editor0 [''note'', ''tip''])
         [ShowPreview ''note'', RenderRejects 0]
   \<and> renderCalls (run (new_CalloutSuggestModal plugin0 editor0 [''note'', ''tip''])
         [ShowPreview ''note'', RenderRejects 0, ShowPreview ''note'']) = 1
   \<and> inFlight (run (new_CalloutSuggestModal plugin0 editor0 [''note'', ''tip''])
         [ShowPreview ''note'', RenderRejects 0, ShowPreview ''note'']) = []
   \<and> previewEl (modal (run (new_CalloutSuggestModal plugin0 editor0 [''note'', ''tip''])
         [ShowPreview ''note'', RenderRejects 0, ShowPreview ''note''])) = []"
  by (simp add: run_def updatePreview_def render_def renderRejects_def new_CalloutSuggestModal_def)

text \<open>
  C3, amended. Let a preview of \<open>c\<close> be requested in a session, whatever else is in
  flight, and let its render fail. The surface stays as the call left it, empty, and \<open>c\<close>
  stays the current category; the render is no longer in flight and the rejection is
  recorded as unhandled, reaching no handler of the modal. Later calls are treated as they
  would be had the render succeeded: they leave the same current category, the same
  renders in flight and the same number of render calls. So a call for another category
  \<open>d\<close> makes a render call for \<open>d\<close>, whose content is what the surface shows when it
  settles, while a call for \<open>c\<close> itself, \<open>c\<close> being the current category, changes
  nothing: the failed render is not tried again. In any session a failing render leaves
  the modal, and so the surface with whatever was rendered into it, as it was.
\<close>

theorem render_failure_recovered:
  assumes "currentPreviewType (modal s) \<noteq> Some c" and "ticketsFresh s"
  shows "(let k = renderCalls s; s1 = updatePreview s c; s2 = renderRejects s1 k
          in previewEl (modal s2) = []
             \<and> currentPreviewType (modal s2) = Some c
             \<and> inFlight s2 = inFlight s
             \<and> unhandledRejections s2 = unhandledRejections s @ [k]
             \<and> updatePreview s2 c = s2
             \<and> currentPreviewType (modal (updatePreview s2 d))
                 = currentPreviewType (modal (updatePreview (renderSettles s1 k) d))
             \<and> inFlight (updatePreview s2 d) = inFlight (updatePreview (renderSettles s1 k) d)
             \<and> renderCalls (updatePreview s2 d) = renderCalls (updatePreview (renderSettles s1 k) d)
             \<and> (d \<noteq> c \<longrightarrow>
                   currentPreviewType (modal (updatePreview s2 d)) = Some d
                   \<and> inFlight (updatePreview s2 d) = inFlight s @ [(k + 1, calloutMarkdown d)]
                   \<and> previewEl (modal (renderSettles (updatePreview s2 d) (k + 1)))
                       = [Rendered (calloutMarkdown d)]
                   \<and> updatePreview (renderSettles s1 k) d
                       = (updatePreview s2 d)\<lparr>unhandledRejections := unhandledRejections s\<rparr>))
         \<and> modal (renderRejects s' j) = modal s'"
proof -
  let ?k = "renderCalls s"
  let ?s1 = "updatePreview s c"
  let ?s2 = "renderRejects ?s1 ?k"
  let ?ok = "renderSettles ?s1 ?k"
  have fresh: "\<forall>r \<in> set (inFlight s). fst r < ?k"
    using assms(2) by (simp add: ticketsFresh_def)
  have fresh': "\<forall>r \<in> set (inFlight s). fst r < Suc ?k"
    using fresh by (simp add: less_Suc_eq)
  have s1: "?s1 = s\<lparr>modal := (modal s)\<lparr>currentPreviewType := Some c, previewEl := [],
                           component := addChild ?k (component (modal s))\<rparr>,
               inFlight := inFlight s @ [(?k, calloutMarkdown c)], renderCalls := ?k + 1\<rparr>"
    using assms(1) by (simp add: updatePreview_other)
  have s2: "?s2 = ?s1\<lparr>inFlight := inFlight s, unhandledRejections := unhandledRejections s @ [?k]\<rparr>"
    unfolding s1 by (simp add: renderRejects_def map_add_def map_of_fresh [OF fresh] filter_fresh [OF fresh])
  have ok: "?ok = ?s1\<lparr>modal := (modal ?s1)\<lparr>previewEl := [Rendered (calloutMarkdown c)]\<rparr>,
                      inFlight := inFlight s\<rparr>"
    unfolding s1 by (simp add: renderSettles_def map_add_def map_of_fresh [OF fresh] filter_fresh [OF fresh])
  have a: "previewEl (modal ?s2) = []
           \<and> currentPreviewType (modal ?s2) = Some c \<and> inFlight ?s2 = inFlight s
           \<and> unhandledRejections ?s2 = unhandledRejections s @ [?k]"
    unfolding s2 unfolding s1 by simp
  have cur2: "currentPreviewType (modal ?s2) = Some c"
    by (simp add: renderRejects_keeps currentPreviewType_updatePreview)
  have b: "updatePreview ?s2 c = ?s2"
    using cur2 by (rule updatePreview_same)
  have cmp: "currentPreviewType (modal (updatePreview ?s2 d))
                 = currentPreviewType (modal (updatePreview ?ok d))
             \<and> inFlight (updatePreview ?s2 d) = inFlight (updatePreview ?ok d)
             \<and> renderCalls (updatePreview ?s2 d) = renderCalls (updatePreview ?ok d)"
    unfolding s2 ok unfolding s1 by (simp add: updatePreview_def render_def)
  have other: "d \<noteq> c \<longrightarrow>
                   currentPreviewType (modal (updatePreview ?s2 d)) = Some d
                   \<and> inFlight (updatePreview ?s2 d) = inFlight s @ [(?k + 1, calloutMarkdown d)]
                   \<and> previewEl (modal (renderSettles (updatePreview ?s2 d) (?k + 1)))
                       = [Rendered (calloutMarkdown d)]
                   \<and> updatePreview ?ok d
                       = (updatePreview ?s2 d)\<lparr>unhandledRejections := unhandledRejections s\<rparr>"
    unfolding s2 ok unfolding s1
    by (simp add: updatePreview_def render_def renderSettles_def map_add_def
        map_of_fresh [OF fresh'] filter_fresh [OF fresh'])
  have rej: "modal (renderRejects s' j) = modal s'"
    by (rule renderRejects_keeps)
  show ?thesis
    unfolding Let_def using a b cmp other rej by blast
qed

theorem render_failure_recovered_witness:
  "currentPreviewType (modal (updatePreview (new_CalloutSuggestModal plugin0 editor0 [''bug'', ''note'', ''tip'']) ''bug''))
     \<noteq> Some ''note''
   \<and> ticketsFresh (updatePreview (new_CalloutSuggestModal plugin0 editor0 [''bug'', ''note'', ''tip'']) ''bug'')
   \<and> ''tip'' \<noteq> ''note''
   \<and> previewEl (modal (renderRejects
         (updatePreview (updatePreview (new_CalloutSuggestModal plugin0 editor0 [''bug'', ''note'', ''tip'']) ''bug'') ''note'') 1)) = []
   \<and> unhandledRejections (renderRejects
         (updatePreview (updatePreview (new_CalloutSuggestModal plugin0 editor0 [''bug'', ''note'', ''tip'']) ''bug'') ''note'') 1) = [1]
   \<and> previewEl (modal (renderSettles (updatePreview (renderRejects
         (updatePreview (updatePreview (new_CalloutSuggestModal plugin0 editor0 [''bug'', ''note'', ''tip'']) ''bug'') ''note'') 1)
           ''tip'') 2))
       = [Rendered (calloutMarkdown ''tip'')]"
proof -
  let ?s = "updatePreview (new_CalloutSuggestModal plugin0 editor0 [''bug'', ''note'', ''tip'']) ''bug''"
  have h1: "currentPreviewType (modal ?s) \<noteq> Some ''note''"
    by (simp add: currentPreviewType_updatePreview)
  have h2: "ticketsFresh ?s"
    by (simp add: ticketsFresh_def updatePreview_def render_def new_CalloutSuggestModal_def)
  have k: "renderCalls ?s = 1"
    by (simp add: updatePreview_def render_def new_CalloutSuggestModal_def)
  have u: "unhandledRejections ?s = []"
    by (simp add: updatePreview_def render_def new_CalloutSuggestModal_def)
  have ne: "''tip'' \<noteq> ''note''" by simp
  have r: "previewEl (modal (renderRejects (updatePreview ?s ''note'') 1)) = []
           \<and> unhandledRejections (renderRejects (updatePreview ?s ''note'') 1) = [1]
           \<and> previewEl (modal (renderSettles (updatePreview (renderRejects
                (updatePreview ?s ''note'') 1) ''tip'') 2)) = [Rendered (calloutMarkdown ''tip'')]"
    using render_failure_recovered [OF h1 h2, of "''tip''" ?s 0] ne
    unfolding Let_def k u by (simp add: numeral_2_eq_2)
  from h1 h2 ne r show ?thesis by simp
qed

subsection \<open>The row selected when the list opens\<close>

lemma renderSuggestion_unselected:
  "fst (renderSuggestion s item (rowElement False)) = s"
  by (simp add: renderSuggestion_def rowElement_def Let_def)

lemma materialise_unselected: "fst (materialise s False items) = s"
proof (induction items arbitrary: s)
  case Nil
  show ?case by simp
next
  case (Cons item items)
  have "fst (materialise s False (item # items))
        = fst (materialise (fst (renderSuggestion s item (rowElement False))) False items)"
    by (simp add: Let_def split: prod.splits)
  then show ?case by (simp add: renderSuggestion_unselected Cons)
qed

lemma populate_first:
  assumes "types \<noteq> []"
  shows "fst (populate (onOpen (new_CalloutSuggestModal app ed types)))
         = updatePreview (onOpen (new_CalloutSuggestModal app ed types)) (hd types)"
proof -
  from assms obtain item items where t: "types = item # items" by (cases types) auto
  let ?s = "onOpen (new_CalloutSuggestModal app ed types)"
  have g: "getItems ?s = item # items"
    by (simp add: getItems_def onOpen_def new_CalloutSuggestModal_def t)
  have "fst (populate ?s)
        = fst (materialise (fst (renderSuggestion ?s item (rowElement True))) False items)"
    unfolding populate_def g by (simp add: Let_def split: prod.splits)
  also have "\<dots> = fst (renderSuggestion ?s item (rowElement True))"
    by (rule materialise_unselected)
  also have "\<dots> = updatePreview ?s item"
    by (simp add: renderSuggestion_def rowElement_def Let_def)
  finally show ?thesis by (simp add: t)
qed

text \<open>
  C6. When \<open>renderSuggestion\<close> is given a row whose element already carries the class
  \<open>is-selected\<close>, the session it returns is the one \<open>updatePreview\<close> gives for the row's
  item: the preview is requested within the call itself. So when a new modal with a
  non-empty list of names is opened and its rows are materialised, the first of them
  marked selected, the first name is the current category and its render is in flight,
  with no hover and no key pressed, and the surface shows its content once the render
  has settled.
\<close>

theorem initial_selection_preview:
  "(''is-selected'' \<in> set (classList el) \<longrightarrow>
      fst (renderSuggestion s item el) = updatePreview s item)
   \<and> (types \<noteq> [] \<longrightarrow>
       (let s1 = fst (populate (onOpen (new_CalloutSuggestModal app ed types)))
        in currentPreviewType (modal s1) = Some (hd types)
           \<and> inFlight s1 = [(0, calloutMarkdown (hd types))]
           \<and> renderCalls s1 = 1
           \<and> previewEl (modal (renderSettles s1 0)) = [Rendered (calloutMarkdown (hd types))]))"
proof -
  have a: "''is-selected'' \<in> set (classList el) \<longrightarrow>
      fst (renderSuggestion s item el) = updatePreview s item"
    by (simp add: renderSuggestion_def Let_def)
  have b: "types \<noteq> [] \<longrightarrow>
       (let s1 = fst (populate (onOpen (new_CalloutSuggestModal app ed types)))
        in currentPreviewType (modal s1) = Some (hd types)
           \<and> inFlight s1 = [(0, calloutMarkdown (hd types))]
           \<and> renderCalls s1 = 1
           \<and> previewEl (modal (renderSettles s1 0)) = [Rendered (calloutMarkdown (hd types))])"
  proof (intro impI)
    assume ne: "types \<noteq> []"
    have p: "fst (populate (onOpen (new_CalloutSuggestModal app ed types)))
             = updatePreview (onOpen (new_CalloutSuggestModal app ed types)) (hd types)"
      using ne by (rule populate_first)
    show "let s1 = fst (populate (onOpen (new_CalloutSuggestModal app ed types)))
        in currentPreviewType (modal s1) = Some (hd types)
           \<and> inFlight s1 = [(0, calloutMarkdown (hd types))]
           \<and> renderCalls s1 = 1
           \<and> previewEl (modal (renderSettles s1 0)) = [Rendered (calloutMarkdown (hd types))]"
      unfolding Let_def p
      by (simp add: updatePreview_def render_def onOpen_def
          new_CalloutSuggestModal_def renderSettles_def)
  qed
  from a b show ?thesis by simp
qed

theorem initial_selection_preview_witness:
  "''is-selected'' \<in> set (classList (rowElement True))
   \<and> [''bug'', ''note'', ''tip''] \<noteq> []
   \<and> fst (renderSuggestion (new_CalloutSuggestModal plugin0 editor0 [''bug'', ''note'', ''tip''])
         ''bug'' (rowElement True))
      = updatePreview (new_CalloutSuggestModal plugin0 editor0 [''bug'', ''note'', ''tip'']) ''bug''
   \<and> previewEl (modal (renderSettles (fst (populate (onOpen
         (new_CalloutSuggestModal plugin0 editor0 [''bug'', ''note'', ''tip'']))))  0))
      = [Rendered (calloutMarkdown ''bug'')]"
  using initial_selection_preview [of "rowElement True"
      "new_CalloutSuggestModal plugin0 editor0 [''bug'', ''note'', ''tip'']"
      "''bug''" "[''bug'', ''note'', ''tip'']" plugin0 editor0]
  by (simp add: rowElement_def Let_def)

subsection \<open>Closing the modal\<close>

text \<open>
  C8. \<open>onClose\<close> twice is \<open>onClose\<close> once. It unloads the component, which releases the
  resources bound to it and leaves none bound, so a second call releases nothing more;
  it disconnects the observer when there is one and skips it when there is none; it
  leaves the surface and the current category alone. On a modal that was never opened
  and never previewed anything it changes nothing, and on one that was opened it only
  disconnects the observer. The function has no error result.
\<close>

theorem onClose_idempotent:
  "onClose (onClose s) = onClose s
   \<and> bound (component (modal (onClose s))) = []
   \<and> released (component (modal (onClose s)))
       = released (component (modal s)) @ bound (component (modal s))
   \<and> released (component (modal (onClose (onClose s)))) = released (component (modal (onClose s)))
   \<and> (case observer (modal (onClose s)) of
         None \<Rightarrow> observer (modal s) = None
       | Some ob \<Rightarrow> observer (modal s) \<noteq> None \<and> \<not> observing ob)
   \<and> previewEl (modal (onClose s)) = previewEl (modal s)
   \<and> currentPreviewType (modal (onClose s)) = currentPreviewType (modal s)
   \<and> onClose (new_CalloutSuggestModal app ed types) = new_CalloutSuggestModal app ed types
   \<and> onClose (onOpen (new_CalloutSuggestModal app ed types))
       = (new_CalloutSuggestModal app ed types)
           \<lparr>modal := (modal (new_CalloutSuggestModal app ed types))
              \<lparr>observer := Some \<lparr>observing = False\<rparr>\<rparr>\<rparr>"
  by (simp add: onClose_def unload_def disconnect_def Let_def onOpen_def
      new_CalloutSuggestModal_def new_Component_def split: option.splits)

end
